theory Spec2Isabelle
  imports Main "HOL-Library.AList"
begin

section \<open>The spectrogram class of Spectrogram.py\<close>

text \<open>
  The class \<^verbatim>\<open>spectrogram\<close> keeps five attributes and has four methods besides its
  initialiser. Everything numerical is done by library routines that are not part of the
  repository (\<^verbatim>\<open>scipy.signal.spectrogram\<close>, three \<^verbatim>\<open>librosa.feature\<close> routines, the
  \<^verbatim>\<open>numpy.ndarray\<close> constructor, \<^verbatim>\<open>open\<close> and \<^verbatim>\<open>json.dump\<close>). They are
  collected in a record of operations, \<open>env\<close>, that every method takes as its first
  argument: each operation returns either a Python exception or a value, and the theorems
  below hold for every such record. The class's own code (the choice of the channel, the
  guard of the feature routine, the keys of the saved dictionary, the file name, the order
  of the steps and the point at which each attribute is assigned) is modelled as written.

  Messages printed on the console are not part of the model. The branch of
  \<^verbatim>\<open>_spectralFeatures\<close> that only prints a message shows as the return value
  \<open>None\<close>, which is what the Python method returns there.
\<close>

subsection \<open>Data\<close>

text \<open>Exceptions the code or the libraries under it can raise.\<close>

datatype error =
    IndexError
  | AttributeError
  | TypeError
  | ValueError
  | ZeroDivisionError
  | OSError
  | ParameterError

text \<open>
  A numpy array as \<^verbatim>\<open>scipy.io.wavfile.read\<close> delivers it: one-dimensional for a
  mono file, two-dimensional with one row per sample and one column per channel otherwise.
  \<open>Table n rows\<close> has shape \<open>(length rows, n)\<close>; the column count is kept apart from
  the rows because an array of shape \<open>(0, n)\<close> has no row to read it from.
\<close>

datatype 'a ndarray = Flat "'a list" | Table nat "'a list list"

fun shape :: "'a ndarray \<Rightarrow> nat list" where
  "shape (Flat xs) = [length xs]"
| "shape (Table n rows) = [length rows, n]"

text \<open>The stereo waveform whose two columns are the channels \<open>A\<close> and \<open>B\<close>.\<close>

definition stereo :: "'a list \<Rightarrow> 'a list \<Rightarrow> 'a ndarray" where
  "stereo A B = Table 2 (map (\<lambda>(a, b). [a, b]) (zip A B))"

text \<open>
  Python values that end up in the saved dictionary: the nested lists that
  \<^verbatim>\<open>tolist()\<close> builds, the object returned by the feature routine, and \<open>None\<close>.
\<close>

datatype ('b, 'f) pyval =
    Num 'b
  | List "('b, 'f) pyval list"
  | Obj 'f
  | NoneVal

type_synonym ('b, 'f) document = "(string \<times> ('b, 'f) pyval) list"

text \<open>
  A file on disk holds a complete document, or what was written of one before
  \<^verbatim>\<open>json.dump\<close> raised.
\<close>

datatype ('b, 'f) json_file = Complete "('b, 'f) document" | Partial

type_synonym ('b, 'f) files = "string \<rightharpoonup> ('b, 'f) json_file"

text \<open>The attributes of an instance; \<^verbatim>\<open>__init__\<close> sets all five to \<open>None\<close>.\<close>

record ('b, 'f) spectrogram =
  sampleFreqs :: "'b ndarray option"
  sampleTime :: "'b ndarray option"
  colorMesh :: "'b ndarray option"
  features :: "'f option"
  container :: "('b, 'f) document option"

definition init :: "('b, 'f) spectrogram" where
  "init = \<lparr>sampleFreqs = None, sampleTime = None, colorMesh = None,
           features = None, container = None\<rparr>"

subsection \<open>The library operations\<close>

text \<open>
  \<^item> \<open>signal_spectrogram x fs window\<close>: \<^verbatim>\<open>scipy.signal.spectrogram(x, fs=fs, window=window)\<close>,
    returning the triple (frequencies, times, intensities);
  \<^item> \<open>spectral_centroid y sr S window\<close>, \<open>spectral_rolloff\<close>, \<open>melspectrogram\<close>: the
    \<^verbatim>\<open>librosa.feature\<close> routines, called with the keywords \<^verbatim>\<open>y\<close>, \<^verbatim>\<open>sr\<close>, \<^verbatim>\<open>S\<close>,
    \<^verbatim>\<open>window\<close>;
  \<^item> \<open>ndarray_ctor a b c\<close>: the call \<^verbatim>\<open>numpy.ndarray(a, b, c)\<close> with three arrays;
  \<^item> \<open>array_bool x\<close>: the truth value numpy gives an array (it raises for an array of
    more than one element);
  \<^item> \<open>open_w path\<close>: \<^verbatim>\<open>open(path, 'w')\<close>, \<open>None\<close> when the file could be opened;
  \<^item> \<open>json_encodable f\<close>: whether \<^verbatim>\<open>json.dump\<close> can encode the feature object.
\<close>

record ('a, 'b, 'f) env =
  signal_spectrogram ::
    "'a ndarray \<Rightarrow> int \<Rightarrow> string \<Rightarrow> error + ('b ndarray \<times> 'b ndarray \<times> 'b ndarray)"
  spectral_centroid ::
    "'a ndarray option \<Rightarrow> int \<Rightarrow> 'b ndarray option \<Rightarrow> string \<Rightarrow> error + 'b ndarray"
  spectral_rolloff ::
    "'a ndarray option \<Rightarrow> int \<Rightarrow> 'b ndarray option \<Rightarrow> string \<Rightarrow> error + 'b ndarray"
  melspectrogram ::
    "'a ndarray option \<Rightarrow> int \<Rightarrow> 'b ndarray option \<Rightarrow> string \<Rightarrow> error + 'b ndarray"
  ndarray_ctor :: "'b ndarray \<Rightarrow> 'b ndarray \<Rightarrow> 'b ndarray \<Rightarrow> error + 'f"
  array_bool :: "'a ndarray \<Rightarrow> error + bool"
  open_w :: "string \<Rightarrow> error option"
  json_encodable :: "'f \<Rightarrow> bool"

subsection \<open>\<^verbatim>\<open>_spectrogram\<close>\<close>

text \<open>
  \<^verbatim>\<open>songData[:, 0]\<close>: the first column of a two-dimensional array. numpy raises
  IndexError when the array has no column, and when it has one dimension only.
\<close>

fun column0 :: "'a ndarray \<Rightarrow> error + 'a ndarray" where
  "column0 (Flat xs) = Inl IndexError"
| "column0 (Table n rows) =
     (if n = 0 then Inl IndexError else Inr (Flat (map (\<lambda>r. r ! 0) rows)))"

text \<open>
  The three attributes are assigned together from the triple the library returns, so
  an exception leaves all of them as they were.
\<close>

definition store_result ::
  "('b, 'f) spectrogram \<Rightarrow> error + ('b ndarray \<times> 'b ndarray \<times> 'b ndarray)
     \<Rightarrow> (error + unit) \<times> ('b, 'f) spectrogram" where
  "store_result self r =
     (case r of
        Inl e \<Rightarrow> (Inl e, self)
      | Inr (f, t, m) \<Rightarrow>
          (Inr (), self\<lparr>sampleFreqs := Some f, sampleTime := Some t, colorMesh := Some m\<rparr>))"

definition priv_spectrogram ::
  "('a, 'b, 'f) env \<Rightarrow> ('b, 'f) spectrogram \<Rightarrow> 'a ndarray \<Rightarrow> int \<Rightarrow> string
     \<Rightarrow> (error + unit) \<times> ('b, 'f) spectrogram" where
  "priv_spectrogram env self songData songSampleRate windowType =
     (if length (shape songData) = 2 then
        (case column0 songData of
           Inl e \<Rightarrow> (Inl e, self)
         | Inr channel \<Rightarrow>
             store_result self (signal_spectrogram env channel songSampleRate windowType))
      else
        store_result self (signal_spectrogram env songData songSampleRate windowType))"

subsection \<open>\<^verbatim>\<open>_spectralFeatures\<close>\<close>

text \<open>
  The window names listed under Options in the docstring of \<^verbatim>\<open>_spectralFeatures\<close>.
  No method compares its \<^verbatim>\<open>window\<close> argument with this list.
\<close>

definition window_options :: "string list" where
  "window_options =
     [''boxcar'', ''triang'', ''blackman'', ''hamming'', ''hann'', ''bartlett'', ''flattop'',
      ''parzen'', ''bohman'', ''blackmanharris'', ''nuttall'', ''barthann'', ''kaiser'',
      ''gaussian'', ''general_gaussian'', ''slepian'', ''dpss'', ''chebwin'', ''exponential'',
      ''tukey'']"

text \<open>
  The value of the guard \<^verbatim>\<open>not (song or sr)\<close>. \<^verbatim>\<open>song or sr\<close> takes the truth
  value of \<^verbatim>\<open>song\<close>: \<open>None\<close> is false, an array is asked through numpy. When
  \<^verbatim>\<open>song\<close> is true the disjunction is \<^verbatim>\<open>song\<close> itself and its negation is false;
  otherwise it is \<^verbatim>\<open>sr\<close>, an integer, whose negation is true exactly for 0. The
  intensity matrix \<^verbatim>\<open>S\<close> does not occur in the guard.
\<close>

definition not_song_or_sr ::
  "('a, 'b, 'f) env \<Rightarrow> 'a ndarray option \<Rightarrow> int \<Rightarrow> error + bool" where
  "not_song_or_sr env song sr =
     (case song of
        None \<Rightarrow> Inr (sr = 0)
      | Some x \<Rightarrow>
          (case array_bool env x of
             Inl e \<Rightarrow> Inl e
           | Inr b \<Rightarrow> Inr (if b then False else sr = 0)))"

text \<open>
  The expression of the \<^verbatim>\<open>else\<close> branch: the three routines are called from left to
  right with the same four arguments, and their results go to the array constructor.
\<close>

definition feature_bundle ::
  "('a, 'b, 'f) env \<Rightarrow> 'a ndarray option \<Rightarrow> int \<Rightarrow> 'b ndarray option \<Rightarrow> string
     \<Rightarrow> error + 'f" where
  "feature_bundle env song sr S window =
     (case spectral_centroid env song sr S window of
        Inl e \<Rightarrow> Inl e
      | Inr c \<Rightarrow>
          (case spectral_rolloff env song sr S window of
             Inl e \<Rightarrow> Inl e
           | Inr r \<Rightarrow>
               (case melspectrogram env song sr S window of
                  Inl e \<Rightarrow> Inl e
                | Inr m \<Rightarrow> ndarray_ctor env c r m)))"

text \<open>
  The method reads and writes no attribute. In the branch that prints
  \<^verbatim>\<open>provide either a wav file data or a spectrogram readings or both\<close> it returns
  \<open>None\<close>.
\<close>

definition priv_spectralFeatures ::
  "('a, 'b, 'f) env \<Rightarrow> 'a ndarray option \<Rightarrow> 'b ndarray option \<Rightarrow> int \<Rightarrow> string
     \<Rightarrow> error + 'f option" where
  "priv_spectralFeatures env song S sr window =
     (case not_song_or_sr env song sr of
        Inl e \<Rightarrow> Inl e
      | Inr missing \<Rightarrow>
          if missing then Inr None
          else (case feature_bundle env song sr S window of
                  Inl e \<Rightarrow> Inl e
                | Inr b \<Rightarrow> Inr (Some b)))"

subsection \<open>\<^verbatim>\<open>_saveFormat\<close>\<close>

fun tolist :: "'b ndarray \<Rightarrow> ('b, 'f) pyval" where
  "tolist (Flat xs) = List (map Num xs)"
| "tolist (Table n rows) = List (map (\<lambda>r. List (map Num r)) rows)"

text \<open>\<^verbatim>\<open>self.x.tolist()\<close> raises AttributeError while the attribute is \<open>None\<close>.\<close>

definition attr_tolist :: "'b ndarray option \<Rightarrow> error + ('b, 'f) pyval" where
  "attr_tolist a = (case a of None \<Rightarrow> Inl AttributeError | Some x \<Rightarrow> Inr (tolist x))"

text \<open>The dictionary literal of either branch; its entries are evaluated in order.\<close>

definition container_literal ::
  "('b, 'f) spectrogram \<Rightarrow> bool \<Rightarrow> error + ('b, 'f) document" where
  "container_literal self compressed =
     (if compressed then
        (case attr_tolist (colorMesh self) of
           Inl e \<Rightarrow> Inl e
         | Inr m \<Rightarrow> Inr [(''color_mesh'', m)])
      else
        (case attr_tolist (sampleFreqs self) of
           Inl e \<Rightarrow> Inl e
         | Inr f \<Rightarrow>
             (case attr_tolist (sampleTime self) of
                Inl e \<Rightarrow> Inl e
              | Inr t \<Rightarrow>
                  (case attr_tolist (colorMesh self) of
                     Inl e \<Rightarrow> Inl e
                   | Inr m \<Rightarrow>
                       Inr [(''sample_frequencies'', f), (''sample_time'', t),
                            (''color_mesh'', m)]))))"

definition features_value :: "('b, 'f) spectrogram \<Rightarrow> ('b, 'f) pyval" where
  "features_value self = (case features self of None \<Rightarrow> NoneVal | Some f \<Rightarrow> Obj f)"

text \<open>
  \<^verbatim>\<open>json.dump\<close> encodes numbers, lists and \<open>None\<close>; for any other object it raises
  TypeError unless the encoder knows it.
\<close>

fun encodable :: "('a, 'b, 'f) env \<Rightarrow> ('b, 'f) pyval \<Rightarrow> bool" where
  "encodable env (Num x) = True"
| "encodable env (List vs) = list_all (encodable env) vs"
| "encodable env (Obj f) = json_encodable env f"
| "encodable env NoneVal = True"

text \<open>
  \<^verbatim>\<open>with open(path, 'w') as outfile: json.dump(container, outfile)\<close>. Opening
  creates or empties the file; a value that cannot be encoded stops the dump with the
  file left incomplete.
\<close>

definition write_json ::
  "('a, 'b, 'f) env \<Rightarrow> ('b, 'f) files \<Rightarrow> string \<Rightarrow> ('b, 'f) document
     \<Rightarrow> (error + unit) \<times> ('b, 'f) files" where
  "write_json env files path doc =
     (case open_w env path of
        Some e \<Rightarrow> (Inl e, files)
      | None \<Rightarrow>
          if list_all (\<lambda>(k, v). encodable env v) doc
          then (Inr (), files(path \<mapsto> Complete doc))
          else (Inl TypeError, files(path \<mapsto> Partial)))"

definition priv_saveFormat ::
  "('a, 'b, 'f) env \<Rightarrow> ('b, 'f) spectrogram \<Rightarrow> ('b, 'f) files \<Rightarrow> string \<Rightarrow> string
     \<Rightarrow> bool \<Rightarrow> bool \<Rightarrow> (error + unit) \<times> ('b, 'f) spectrogram \<times> ('b, 'f) files" where
  "priv_saveFormat env self files folder filename featurize compressed =
     (case container_literal self compressed of
        Inl e \<Rightarrow> (Inl e, self, files)
      | Inr c \<Rightarrow>
          let c' = (if featurize then AList.update ''features'' (features_value self) c
                    else c);
              self' = self\<lparr>container := Some c'\<rparr>
          in (case write_json env files (folder @ filename @ ''.json'') c' of
                (r, files') \<Rightarrow> (r, self', files')))"

subsection \<open>\<^verbatim>\<open>__call__\<close>\<close>

text \<open>
  \<^verbatim>\<open>if fileName:\<close> holds for a string that is not empty; \<open>None\<close> and the empty
  string are false.
\<close>

definition call ::
  "('a, 'b, 'f) env \<Rightarrow> ('b, 'f) spectrogram \<Rightarrow> ('b, 'f) files \<Rightarrow> 'a ndarray \<Rightarrow> int
     \<Rightarrow> string \<Rightarrow> string option \<Rightarrow> string option \<Rightarrow> bool \<Rightarrow> bool
     \<Rightarrow> (error + unit) \<times> ('b, 'f) spectrogram \<times> ('b, 'f) files" where
  "call env self files songData songSR window fileName path compressed featureize =
     (case priv_spectrogram env self songData songSR window of
        (Inl e, self1) \<Rightarrow> (Inl e, self1, files)
      | (Inr u, self1) \<Rightarrow>
          (case (if featureize then
                   (case priv_spectralFeatures env None (colorMesh self1) songSR window of
                      Inl e \<Rightarrow> Inl e
                    | Inr f \<Rightarrow> Inr (self1\<lparr>features := f\<rparr>))
                 else Inr self1) of
             Inl e \<Rightarrow> (Inl e, self1, files)
           | Inr self2 \<Rightarrow>
               (case fileName of
                  None \<Rightarrow> (Inr (), self2, files)
                | Some name \<Rightarrow>
                    if name = [] then (Inr (), self2, files)
                    else
                      (case path of
                         None \<Rightarrow>
                           priv_saveFormat env self2 files [] name featureize compressed
                       | Some p \<Rightarrow>
                           priv_saveFormat env self2 files p name featureize compressed))))"

subsection \<open>Observations on the outcome\<close>

text \<open>The keys, in order, of the complete document stored under a path, if there is one.\<close>

definition keys_at :: "('b, 'f) files \<Rightarrow> string \<Rightarrow> string list option" where
  "keys_at files path =
     (case files path of
        Some (Complete doc) \<Rightarrow> Some (map fst doc)
      | Some Partial \<Rightarrow> None
      | None \<Rightarrow> None)"

text \<open>
  The keys the specification gives the document as a function of the two flags: the
  intensity matrix alone when compressed, the three arrays otherwise, and the features
  after them when requested.
\<close>

definition document_keys :: "bool \<Rightarrow> bool \<Rightarrow> string list" where
  "document_keys compressed includeFeatures =
     (if compressed then [''color_mesh'']
      else [''sample_frequencies'', ''sample_time'', ''color_mesh''])
     @ (if includeFeatures then [''features''] else [])"

subsection \<open>The orchestration as the specification words it\<close>

text \<open>
  Section 4.4 of the specification describes the entry point as three steps run in
  order on the instance and the disk, a failing step ending the invocation:
  Transform, always; Feature Extraction on the intensity matrix just computed and the
  caller's sample rate, when \<open>featurize\<close>; Serialization at the output path (empty when
  none is given) with the two flags, when an output name is provided.
\<close>

type_synonym ('b, 'f) machine = "('b, 'f) spectrogram \<times> ('b, 'f) files"

type_synonym ('b, 'f) step = "('b, 'f) machine \<Rightarrow> (error + unit) \<times> ('b, 'f) machine"

definition and_then :: "('b, 'f) step \<Rightarrow> ('b, 'f) step \<Rightarrow> ('b, 'f) step" where
  "and_then p q m = (case p m of (Inl e, m') \<Rightarrow> (Inl e, m') | (Inr u, m') \<Rightarrow> q m')"

definition when_step :: "bool \<Rightarrow> ('b, 'f) step \<Rightarrow> ('b, 'f) step" where
  "when_step b p m = (if b then p m else (Inr (), m))"

definition transform_step ::
  "('a, 'b, 'f) env \<Rightarrow> 'a ndarray \<Rightarrow> int \<Rightarrow> string \<Rightarrow> ('b, 'f) step" where
  "transform_step env waveform sampleRate window m =
     (case priv_spectrogram env (fst m) waveform sampleRate window of
        (r, self') \<Rightarrow> (r, (self', snd m)))"

definition feature_step :: "('a, 'b, 'f) env \<Rightarrow> int \<Rightarrow> string \<Rightarrow> ('b, 'f) step" where
  "feature_step env sampleRate window m =
     (case priv_spectralFeatures env None (colorMesh (fst m)) sampleRate window of
        Inl e \<Rightarrow> (Inl e, m)
      | Inr b \<Rightarrow> (Inr (), ((fst m)\<lparr>features := b\<rparr>, snd m)))"

definition serialize_step ::
  "('a, 'b, 'f) env \<Rightarrow> string \<Rightarrow> string \<Rightarrow> bool \<Rightarrow> bool \<Rightarrow> ('b, 'f) step" where
  "serialize_step env location name compressed includeFeatures m =
     (case priv_saveFormat env (fst m) (snd m) location name includeFeatures compressed of
        (r, self', files') \<Rightarrow> (r, (self', files')))"

definition provided :: "string option \<Rightarrow> bool" where
  "provided name = (case name of None \<Rightarrow> False | Some n \<Rightarrow> n \<noteq> [])"

definition or_empty :: "string option \<Rightarrow> string" where
  "or_empty s = (case s of None \<Rightarrow> [] | Some x \<Rightarrow> x)"

definition spec_run ::
  "('a, 'b, 'f) env \<Rightarrow> 'a ndarray \<Rightarrow> int \<Rightarrow> string \<Rightarrow> string option \<Rightarrow> string option
     \<Rightarrow> bool \<Rightarrow> bool \<Rightarrow> ('b, 'f) step" where
  "spec_run env waveform sampleRate window outputName outputPath compressed featurize =
     and_then (transform_step env waveform sampleRate window)
       (and_then (when_step featurize (feature_step env sampleRate window))
          (when_step (provided outputName)
             (serialize_step env (or_empty outputPath) (or_empty outputName)
                compressed featurize)))"

subsection \<open>An instance of the library operations\<close>

text \<open>
  A small stand-in for the libraries, over integer samples, on which the methods can be
  run. It follows what the libraries do on the inputs used below.

  The transform raises ValueError for a window name it cannot build from the name alone
  and for a waveform without samples. The names it accepts are those of the docstring
  that need no parameter, and \<^verbatim>\<open>cosine\<close>, which scipy's window lookup knows and the
  docstring does not list. It does not look at the sign of the sample rate: a negative
  rate gives negative frequency bins. Its result is a two-bin spectrum holding the energy
  of the samples.

  The feature routines raise ParameterError when given neither samples nor a matrix.

  \<^verbatim>\<open>numpy.ndarray\<close> takes a shape, a dtype and a buffer as its first three
  arguments; called with three arrays it raises TypeError. An array object, if there
  were one, is nothing \<^verbatim>\<open>json.dump\<close> can encode.
\<close>

fun samples :: "'a ndarray \<Rightarrow> 'a list" where
  "samples (Flat xs) = xs"
| "samples (Table n rows) = concat rows"

definition demo_windows :: "string list" where
  "demo_windows =
     [''boxcar'', ''triang'', ''blackman'', ''hamming'', ''hann'', ''bartlett'', ''flattop'',
      ''parzen'', ''bohman'', ''blackmanharris'', ''nuttall'', ''barthann'', ''exponential'',
      ''tukey'', ''cosine'']"

definition demo_spectrogram ::
  "int ndarray \<Rightarrow> int \<Rightarrow> string
     \<Rightarrow> error + (int ndarray \<times> int ndarray \<times> int ndarray)" where
  "demo_spectrogram x fs window =
     (if window \<notin> set demo_windows then Inl ValueError
      else if samples x = [] then Inl ValueError
      else if fs = 0 then Inl ZeroDivisionError
      else Inr (Flat [0, fs div 2], Flat [0],
                Table 1 [[sum_list (map (\<lambda>v. v * v) (samples x))], [0]]))"

definition demo_feature ::
  "int ndarray option \<Rightarrow> int \<Rightarrow> int ndarray option \<Rightarrow> string \<Rightarrow> error + int ndarray" where
  "demo_feature y sr S window =
     (case S of
        Some m \<Rightarrow> Inr (Flat (samples m))
      | None \<Rightarrow> (case y of None \<Rightarrow> Inl ParameterError | Some x \<Rightarrow> Inr (Flat (samples x))))"

definition numpy_ndarray :: "int ndarray \<Rightarrow> int ndarray \<Rightarrow> int ndarray \<Rightarrow> error + int ndarray" where
  "numpy_ndarray shape_arg dtype_arg buffer_arg = Inl TypeError"

definition demo_bool :: "int ndarray \<Rightarrow> error + bool" where
  "demo_bool x =
     (case samples x of [] \<Rightarrow> Inr False | [v] \<Rightarrow> Inr (v \<noteq> 0) | v # w # vs \<Rightarrow> Inl ValueError)"

definition demo_env :: "(int, int, int ndarray) env" where
  "demo_env =
     \<lparr>signal_spectrogram = demo_spectrogram,
      spectral_centroid = demo_feature,
      spectral_rolloff = demo_feature,
      melspectrogram = demo_feature,
      ndarray_ctor = numpy_ndarray,
      array_bool = demo_bool,
      open_w = (\<lambda>p. None),
      json_encodable = (\<lambda>f. False)\<rparr>"

text \<open>An instance that holds a spectrogram and no features.\<close>

definition demo_self :: "(int, int ndarray) spectrogram" where
  "demo_self =
     \<lparr>sampleFreqs = Some (Flat [0, 4]), sampleTime = Some (Flat [0]),
      colorMesh = Some (Table 1 [[5], [0]]), features = None, container = None\<rparr>"

section \<open>Properties\<close>

subsection \<open>What each method leaves alone\<close>

lemma store_result_failure:
  "store_result self r = (Inl e, self') \<Longrightarrow> self' = self"
  by (auto simp: store_result_def split: sum.splits prod.splits)

lemma store_result_frame:
  "store_result self r = (x, self') \<Longrightarrow>
     features self' = features self \<and> container self' = container self"
  by (auto simp: store_result_def split: sum.splits prod.splits)

lemma priv_spectrogram_failure:
  "priv_spectrogram env self d sr w = (Inl e, self') \<Longrightarrow> self' = self"
  by (auto simp: priv_spectrogram_def split: if_splits sum.splits dest: store_result_failure)

lemma priv_spectrogram_frame:
  "priv_spectrogram env self d sr w = (x, self') \<Longrightarrow>
     features self' = features self \<and> container self' = container self"
  by (auto simp: priv_spectrogram_def split: if_splits sum.splits dest: store_result_frame)

lemma priv_saveFormat_frame:
  "priv_saveFormat env self files folder filename featurize compressed = (x, self', files') \<Longrightarrow>
     features self' = features self \<and> sampleFreqs self' = sampleFreqs self
     \<and> sampleTime self' = sampleTime self \<and> colorMesh self' = colorMesh self"
  by (auto simp: priv_saveFormat_def Let_def split: sum.splits prod.splits)

lemma write_json_other_paths:
  "write_json env files path doc = (r, files') \<Longrightarrow> p \<noteq> path \<Longrightarrow> files' p = files p"
  by (auto simp: write_json_def split: option.splits if_splits)

lemma write_json_success:
  "write_json env files path doc = (Inr (), files') \<Longrightarrow> files' = files(path \<mapsto> Complete doc)"
  by (auto simp: write_json_def split: option.splits if_splits)

lemma priv_saveFormat_other_paths:
  "priv_saveFormat env self files folder filename featurize compressed = (r, self', files') \<Longrightarrow>
     p \<noteq> folder @ filename @ ''.json'' \<Longrightarrow> files' p = files p"
  by (auto simp: priv_saveFormat_def Let_def split: sum.splits prod.splits
           dest: write_json_other_paths)

lemma priv_saveFormat_success:
  assumes "priv_saveFormat env self files folder filename featurize compressed
             = (Inr (), self', files')"
  shows "\<exists>doc. container_literal self compressed = Inr doc \<and>
       container self' =
         Some (if featurize then AList.update ''features'' (features_value self) doc else doc) \<and>
       files' = files(folder @ filename @ ''.json'' \<mapsto>
         Complete (if featurize then AList.update ''features'' (features_value self) doc else doc))"
proof (cases "container_literal self compressed")
  case (Inl e)
  with assms show ?thesis
    by (simp add: priv_saveFormat_def)
next
  case (Inr doc)
  define doc' where
    "doc' = (if featurize then AList.update ''features'' (features_value self) doc else doc)"
  obtain r fs where w: "write_json env files (folder @ filename @ ''.json'') doc' = (r, fs)"
    by (cases "write_json env files (folder @ filename @ ''.json'') doc'")
  from assms Inr w have "r = Inr ()" "fs = files'" "self' = self\<lparr>container := Some doc'\<rparr>"
    by (simp_all add: priv_saveFormat_def Let_def doc'_def)
  with w have "files' = files(folder @ filename @ ''.json'' \<mapsto> Complete doc')"
    by (auto dest: write_json_success)
  with Inr \<open>self' = self\<lparr>container := Some doc'\<rparr>\<close> show ?thesis
    by (auto simp: doc'_def)
qed

lemma container_literal_keys:
  "container_literal self compressed = Inr doc \<Longrightarrow>
     map fst doc = document_keys compressed False"
  by (auto simp: container_literal_def document_keys_def split: if_splits sum.splits)

lemma update_features_keys:
  "map fst doc = document_keys compressed False \<Longrightarrow>
     map fst (AList.update ''features'' v doc) = document_keys compressed True"
  by (cases compressed) (auto simp: document_keys_def)

lemma first_column_stereo:
  "length A \<le> length B \<Longrightarrow> map (\<lambda>r. r ! 0) (map (\<lambda>(a, b). [a, b]) (zip A B)) = A"
proof (induction A arbitrary: B)
  case Nil
  show ?case by simp
next
  case (Cons a A)
  then obtain b B' where B: "B = b # B'"
    by (cases B) auto
  with Cons show ?case by simp
qed

text \<open>The entry point unfolded along the outcome of its first step.\<close>

lemma call_transform_failed:
  "priv_spectrogram env self d sr w = (Inl e, self1) \<Longrightarrow>
     call env self files d sr w name path c f = (Inl e, self1, files)"
  by (simp add: call_def)

lemma call_without_features:
  "priv_spectrogram env self d sr w = (Inr u, self1) \<Longrightarrow>
     call env self files d sr w name path c False =
       (if provided name
        then priv_saveFormat env self1 files (or_empty path) (or_empty name) False c
        else (Inr (), self1, files))"
  by (simp add: call_def provided_def or_empty_def split: option.splits)

lemma call_features_failed:
  "priv_spectrogram env self d sr w = (Inr u, self1) \<Longrightarrow>
   priv_spectralFeatures env None (colorMesh self1) sr w = Inl e \<Longrightarrow>
     call env self files d sr w name path c True = (Inl e, self1, files)"
  by (simp add: call_def)

lemma call_with_features:
  "priv_spectrogram env self d sr w = (Inr u, self1) \<Longrightarrow>
   priv_spectralFeatures env None (colorMesh self1) sr w = Inr b \<Longrightarrow>
     call env self files d sr w name path c True =
       (if provided name
        then priv_saveFormat env (self1\<lparr>features := b\<rparr>) files (or_empty path) (or_empty name)
               True c
        else (Inr (), self1\<lparr>features := b\<rparr>, files))"
  by (simp add: call_def provided_def or_empty_def split: option.splits)

lemma call_outcome:
  assumes "call env self files d sr w name path c f = (r, self', files')"
  shows "(files' = files \<and> \<not> (r = Inr () \<and> provided name))
         \<or> (provided name \<and>
              (\<exists>self2. priv_saveFormat env self2 files (or_empty path) (or_empty name) f c
                         = (r, self', files')))"
proof -
  obtain r0 self1 where t: "priv_spectrogram env self d sr w = (r0, self1)"
    by (cases "priv_spectrogram env self d sr w")
  show ?thesis
  proof (cases r0)
    case (Inl e)
    with t assms show ?thesis
      by (auto simp: call_transform_failed)
  next
    case (Inr u)
    note t = t [unfolded Inr]
    show ?thesis
    proof (cases f)
      case False
      with assms have
        "(if provided name
          then priv_saveFormat env self1 files (or_empty path) (or_empty name) False c
          else (Inr (), self1, files)) = (r, self', files')"
        by (simp add: call_without_features [OF t])
      with False show ?thesis
        by (auto split: if_splits)
    next
      case True
      show ?thesis
      proof (cases "priv_spectralFeatures env None (colorMesh self1) sr w")
        case (Inl e)
        with t True assms show ?thesis
          by (auto simp: call_features_failed)
      next
        case (Inr b)
        with True assms have
          "(if provided name
            then priv_saveFormat env (self1\<lparr>features := b\<rparr>) files (or_empty path)
                   (or_empty name) True c
            else (Inr (), self1\<lparr>features := b\<rparr>, files)) = (r, self', files')"
          by (simp add: call_with_features [OF t])
        with True show ?thesis
          by (auto split: if_splits)
      qed
    qed
  qed
qed

text \<open>Evaluation of the methods on the stand-in library.\<close>

lemmas demo_simps =
  call_def priv_spectrogram_def store_result_def priv_spectralFeatures_def
  not_song_or_sr_def feature_bundle_def priv_saveFormat_def container_literal_def
  attr_tolist_def features_value_def write_json_def keys_at_def document_keys_def
  demo_env_def demo_spectrogram_def demo_feature_def demo_bool_def demo_self_def
  demo_windows_def numpy_ndarray_def window_options_def init_def provided_def or_empty_def Let_def

subsection \<open>Transform\<close>

text \<open>
  C1. A stereo waveform with the two columns \<open>A\<close> and \<open>B\<close> gives the same outcome and
  the same retained frequency bins, time bins and intensity matrix as the mono waveform
  \<open>A\<close>, for every sample rate and every window: the second channel is never read.
\<close>

theorem stereo_uses_first_channel:
  assumes "length A = length B"
  shows "priv_spectrogram env self (stereo A B) sr window
           = priv_spectrogram env self (Flat A) sr window"
proof -
  have "column0 (stereo A B) = Inr (Flat A)"
    using assms by (simp add: stereo_def first_column_stereo del: map_map)
  moreover have "length (shape (stereo A B)) = 2" and "length (shape (Flat A)) \<noteq> 2"
    by (simp_all add: stereo_def)
  ultimately show ?thesis
    by (simp add: priv_spectrogram_def)
qed

theorem stereo_uses_first_channel_witness:
  "length [1, 2, 3 :: int] = length [4, 5, 6 :: int]
   \<and> priv_spectrogram demo_env init (stereo [1, 2, 3] [4, 5, 6]) 22050 ''hann''
       = priv_spectrogram demo_env init (Flat [1, 2, 3]) 22050 ''hann''
   \<and> priv_spectrogram demo_env init (stereo [1, 2, 3] [4, 5, 6]) 22050 ''hann''
       = (Inr (),
          \<lparr>sampleFreqs = Some (Flat [0, 11025]), sampleTime = Some (Flat [0]),
           colorMesh = Some (Table 1 [[14], [0]]), features = None, container = None\<rparr>)"
proof -
  have mono:
    "priv_spectrogram demo_env init (Flat [1, 2, 3]) 22050 ''hann''
       = (Inr (),
          \<lparr>sampleFreqs = Some (Flat [0, 11025]), sampleTime = Some (Flat [0]),
           colorMesh = Some (Table 1 [[14], [0]]), features = None, container = None\<rparr>)"
    by (simp add: demo_simps)
  from stereo_uses_first_channel
         [of "[1, 2, 3 :: int]" "[4, 5, 6 :: int]" demo_env init 22050 "''hann''"]
  show ?thesis
    using mono by simp
qed

text \<open>
  C3 claims that a non-positive sample rate makes Transform fail with nothing stored and
  nothing written. The method checks neither the waveform nor the sample rate, and the
  library does not look at the sign of the rate: with a negative rate the answer of the
  library is stored and, a file name being given, written.
\<close>

theorem negative_rate_is_transformed:
  "call demo_env init Map.empty (Flat [1, 2]) (- 22050) ''hann'' (Some ''out'') None True False
     = (Inr (),
        \<lparr>sampleFreqs = Some (Flat [0, - 11025]), sampleTime = Some (Flat [0]),
         colorMesh = Some (Table 1 [[5], [0]]), features = None,
         container = Some [(''color_mesh'', List [List [Num 5], List [Num 0]])]\<rparr>,
        [''out.json'' \<mapsto> Complete [(''color_mesh'', List [List [Num 5], List [Num 0]])]])"
  by (simp add: demo_simps)

text \<open>
  C3, as the code has it. A mono waveform, empty or not, reaches the library as given,
  together with the sample rate, and what the library answers is what Transform does.
  When the Transform step fails, as it does on a waveform without samples, which the
  library rejects, the invocation ends with that failure, every attribute as before and
  no file touched.
\<close>

theorem transform_failure_ends_call:
  "priv_spectrogram env self (Flat xs) sr w
     = store_result self (signal_spectrogram env (Flat xs) sr w)
   \<and> (fst (priv_spectrogram env self d sr w) = Inl e \<longrightarrow>
        call env self files d sr w name path c f = (Inl e, self, files))"
proof
  show "priv_spectrogram env self (Flat xs) sr w
          = store_result self (signal_spectrogram env (Flat xs) sr w)"
    by (simp add: priv_spectrogram_def)
next
  show "fst (priv_spectrogram env self d sr w) = Inl e \<longrightarrow>
          call env self files d sr w name path c f = (Inl e, self, files)"
  proof
    assume failed: "fst (priv_spectrogram env self d sr w) = Inl e"
    then obtain self1 where t: "priv_spectrogram env self d sr w = (Inl e, self1)"
      by (cases "priv_spectrogram env self d sr w") simp
    then have "self1 = self"
      by (rule priv_spectrogram_failure)
    with t show "call env self files d sr w name path c f = (Inl e, self, files)"
      by (simp add: call_transform_failed)
  qed
qed

theorem transform_failure_ends_call_witness:
  "priv_spectrogram demo_env demo_self (Flat []) 22050 ''hann''
     = store_result demo_self (signal_spectrogram demo_env (Flat []) 22050 ''hann'')
   \<and> fst (priv_spectrogram demo_env demo_self (Flat []) 22050 ''hann'') = Inl ValueError
   \<and> call demo_env demo_self Map.empty (Flat []) 22050 ''hann'' (Some ''out'') None False True
       = (Inl ValueError, demo_self, Map.empty)"
proof -
  have failed:
    "fst (priv_spectrogram demo_env demo_self (Flat []) 22050 ''hann'') = Inl ValueError"
    by (simp add: demo_simps)
  with transform_failure_ends_call
         [of demo_env demo_self "[]" 22050 "''hann''" "Flat []" ValueError
             Map.empty "Some ''out''" None False True]
  show ?thesis by blast
qed

text \<open>
  C6 claims that a window identifier outside the documented list makes Transform fail.
  No method compares the identifier with the list: a name the library knows although the
  list lacks it is accepted, and the three fields are replaced.
\<close>

theorem unlisted_window_is_accepted:
  "''cosine'' \<notin> set window_options
   \<and> priv_spectrogram demo_env init (Flat [1, 2]) 22050 ''cosine''
       = (Inr (),
          \<lparr>sampleFreqs = Some (Flat [0, 11025]), sampleTime = Some (Flat [0]),
           colorMesh = Some (Table 1 [[5], [0]]), features = None, container = None\<rparr>)"
  by (simp add: demo_simps)

text \<open>
  C6, as the code has it. The window identifier goes to the library unchanged, with the
  caller's sample rate and the caller's waveform (its first column when it has two
  dimensions). Transform fails exactly when that library call, or the selection of the
  first column, raises, with the error raised and every attribute as before. When the
  call succeeds, the three fields are replaced together by its result. There is no state
  in between.
\<close>

theorem transform_all_or_nothing:
  assumes "priv_spectrogram env self d sr w = (r, self')"
  shows "case r of
           Inl e \<Rightarrow>
             self' = self \<and>
             (if length (shape d) = 2
              then column0 d = Inl e
                   \<or> (\<exists>channel. column0 d = Inr channel
                          \<and> signal_spectrogram env channel sr w = Inl e)
              else signal_spectrogram env d sr w = Inl e)
         | Inr u \<Rightarrow>
             (\<exists>x f t m.
                (if length (shape d) = 2 then column0 d = Inr x else x = d)
                \<and> signal_spectrogram env x sr w = Inr (f, t, m)
                \<and> self' = self\<lparr>sampleFreqs := Some f, sampleTime := Some t,
                                colorMesh := Some m\<rparr>)"
proof -
  have stored:
    "case r of
       Inl e \<Rightarrow> self' = self \<and> signal_spectrogram env x sr w = Inl e
     | Inr u \<Rightarrow>
         (\<exists>f t m. signal_spectrogram env x sr w = Inr (f, t, m)
            \<and> self' = self\<lparr>sampleFreqs := Some f, sampleTime := Some t,
                            colorMesh := Some m\<rparr>)"
    if "store_result self (signal_spectrogram env x sr w) = (r, self')" for x
    using that by (auto simp: store_result_def split: sum.splits prod.splits)
  show ?thesis
  proof (cases "length (shape d) = 2")
    case False
    with assms have "store_result self (signal_spectrogram env d sr w) = (r, self')"
      by (simp add: priv_spectrogram_def)
    from stored [OF this] False show ?thesis
      by (cases r) auto
  next
    case True
    show ?thesis
    proof (cases "column0 d")
      case (Inl e)
      with assms True show ?thesis
        by (auto simp: priv_spectrogram_def)
    next
      case (Inr channel)
      with assms True have
        "store_result self (signal_spectrogram env channel sr w) = (r, self')"
        by (simp add: priv_spectrogram_def)
      from stored [OF this] True Inr show ?thesis
        by (cases r) auto
    qed
  qed
qed

theorem transform_all_or_nothing_witness:
  "priv_spectrogram demo_env demo_self (stereo [1, 2] [3, 4]) 22050 ''nosuchwindow''
     = (Inl ValueError, demo_self)
   \<and> length (shape (stereo [1, 2] [3, 4 :: int])) = 2
   \<and> column0 (stereo [1, 2] [3, 4 :: int]) = Inr (Flat [1, 2])
   \<and> signal_spectrogram demo_env (Flat [1, 2]) 22050 ''nosuchwindow'' = Inl ValueError"
proof -
  have run:
    "priv_spectrogram demo_env demo_self (stereo [1, 2] [3, 4]) 22050 ''nosuchwindow''
       = (Inl ValueError, demo_self)"
    by (simp add: demo_simps stereo_def)
  have col: "column0 (stereo [1, 2] [3, 4 :: int]) = Inr (Flat [1, 2])"
    by (simp add: stereo_def)
  from transform_all_or_nothing [OF run] show ?thesis
    using run col by (simp add: stereo_def)
qed

subsection \<open>Feature extraction\<close>



text \<open>
  C10. The branch that reports the missing input is taken exactly when the guard on
  \<^verbatim>\<open>song\<close> and \<^verbatim>\<open>sr\<close> holds; the intensity matrix has no part in it. With a
  sample rate other than 0 the branch is therefore never taken, whatever the waveform and
  the intensity matrix are: the method either raises or returns what the library calls
  give, also when both inputs are absent. The entry point passes \<open>None\<close> for the
  waveform and the caller's sample rate, so an invocation that asks for features and
  succeeds always retains a feature object.
\<close>

theorem report_branch_unreachable:
  assumes "sr \<noteq> 0"
  shows "(priv_spectralFeatures env song S rate w = Inr None)
           = (not_song_or_sr env song rate = Inr True)
         \<and> priv_spectralFeatures env song S sr w \<noteq> Inr None
         \<and> priv_spectralFeatures env None None sr w
             = (case feature_bundle env None sr None w of
                  Inl e \<Rightarrow> Inl e
                | Inr b \<Rightarrow> Inr (Some b))
         \<and> (call env self files d sr w name path c True = (Inr (), self', files')
              \<longrightarrow> features self' \<noteq> None)"
proof (intro conjI impI)
  show "(priv_spectralFeatures env song S rate w = Inr None)
          = (not_song_or_sr env song rate = Inr True)"
    by (auto simp: priv_spectralFeatures_def split: sum.splits if_splits)
  show never: "priv_spectralFeatures env song S sr w \<noteq> Inr None" for song S
    using assms
    by (auto simp: priv_spectralFeatures_def not_song_or_sr_def
             split: option.splits sum.splits if_splits)
  show "priv_spectralFeatures env None None sr w
          = (case feature_bundle env None sr None w of
               Inl e \<Rightarrow> Inl e
             | Inr b \<Rightarrow> Inr (Some b))"
    using assms by (simp add: priv_spectralFeatures_def not_song_or_sr_def)
  assume ok: "call env self files d sr w name path c True = (Inr (), self', files')"
  obtain r self1 where t: "priv_spectrogram env self d sr w = (r, self1)"
    by (cases "priv_spectrogram env self d sr w")
  show "features self' \<noteq> None"
  proof (cases r)
    case (Inl e)
    with t ok show ?thesis
      by (simp add: call_transform_failed)
  next
    case (Inr u)
    note t = t [unfolded Inr]
    show ?thesis
    proof (cases "priv_spectralFeatures env None (colorMesh self1) sr w")
      case (Inl e)
      with t ok show ?thesis
        by (simp add: call_features_failed)
    next
      case (Inr b)
      with never [of None "colorMesh self1"] obtain fb where b: "b = Some fb"
        by (cases b) auto
      from ok have
        "(if provided name
          then priv_saveFormat env (self1\<lparr>features := b\<rparr>) files (or_empty path)
                 (or_empty name) True c
          else (Inr (), self1\<lparr>features := b\<rparr>, files)) = (Inr (), self', files')"
        by (simp only: call_with_features [OF t Inr])
      then have "features self' = features (self1\<lparr>features := b\<rparr>)"
        by (auto split: if_splits dest: priv_saveFormat_frame)
      with b show ?thesis by simp
    qed
  qed
qed

theorem report_branch_unreachable_witness:
  "(22050 :: int) \<noteq> 0
   \<and> not_song_or_sr demo_env None 22050 = Inr False
   \<and> priv_spectralFeatures demo_env None None 22050 ''hann'' = Inl ParameterError
   \<and> priv_spectralFeatures demo_env None (Some (Table 1 [[5], [0]])) 22050 ''hann''
       \<noteq> Inr None
   \<and> call demo_env init Map.empty (Flat [1, 2]) 22050 ''hann'' None None False True
       = (Inl TypeError,
          \<lparr>sampleFreqs = Some (Flat [0, 11025]), sampleTime = Some (Flat [0]),
           colorMesh = Some (Table 1 [[5], [0]]), features = None, container = None\<rparr>,
          Map.empty)"
proof -
  have nz: "(22050 :: int) \<noteq> 0" by simp
  have run:
    "call demo_env init Map.empty (Flat [1, 2]) 22050 ''hann'' None None False True
       = (Inl TypeError,
          \<lparr>sampleFreqs = Some (Flat [0, 11025]), sampleTime = Some (Flat [0]),
           colorMesh = Some (Table 1 [[5], [0]]), features = None, container = None\<rparr>,
          Map.empty)"
    by (simp add: demo_simps)
  have lib: "feature_bundle demo_env None 22050 None ''hann'' = Inl ParameterError"
    by (simp add: demo_simps)
  have guard: "not_song_or_sr demo_env None 22050 = Inr False"
    by (simp add: not_song_or_sr_def)
  from report_branch_unreachable
         [OF nz, of demo_env None "Some (Table 1 [[5], [0]])" 22050 "''hann''" init
            Map.empty "Flat [1, 2]" None None False]
  show ?thesis
    using run lib guard by simp
qed

text \<open>
  What the method itself fixes about an extraction that returns an object: the three
  library routines have each succeeded on the same four arguments, none of them seeing
  the result of another, and the object is what the array constructor made of their
  three results.
\<close>

lemma extraction_calls:
  assumes "priv_spectralFeatures env song S sr w = Inr (Some b)"
  shows "\<exists>c r m. spectral_centroid env song sr S w = Inr c
           \<and> spectral_rolloff env song sr S w = Inr r
           \<and> melspectrogram env song sr S w = Inr m
           \<and> ndarray_ctor env c r m = Inr b"
  using assms
  by (auto simp: priv_spectralFeatures_def feature_bundle_def
           split: sum.splits if_splits)

text \<open>
  C5, at an input where the extraction should succeed: no waveform, an intensity matrix,
  the default sample rate and window. Each of the three routines returns its array,
  computed from the same arguments, and the method then passes the three arrays to
  \<^verbatim>\<open>numpy.ndarray\<close> as if it collected them; the constructor reads them as shape,
  dtype and buffer and raises. The invocation fails with TypeError and no bundle of three
  components is ever returned, from this method or through the entry point.
\<close>

theorem bundle_never_built:
  "spectral_centroid demo_env None 22050 (Some (Table 1 [[5], [0]])) ''hann''
     = Inr (Flat [5, 0])
   \<and> spectral_rolloff demo_env None 22050 (Some (Table 1 [[5], [0]])) ''hann''
       = Inr (Flat [5, 0])
   \<and> melspectrogram demo_env None 22050 (Some (Table 1 [[5], [0]])) ''hann''
       = Inr (Flat [5, 0])
   \<and> priv_spectralFeatures demo_env None (Some (Table 1 [[5], [0]])) 22050 ''hann''
       = Inl TypeError
   \<and> call demo_env init Map.empty (Flat [1, 2]) 22050 ''hann'' (Some ''out'') None False True
       = (Inl TypeError,
          \<lparr>sampleFreqs = Some (Flat [0, 11025]), sampleTime = Some (Flat [0]),
           colorMesh = Some (Table 1 [[5], [0]]), features = None, container = None\<rparr>,
          Map.empty)"
  by (simp add: demo_simps)

subsection \<open>Serialization\<close>

text \<open>
  C2 ties the key \<^verbatim>\<open>features\<close> to a feature bundle being available. The method
  adds the key whenever \<^verbatim>\<open>featurize\<close> is true and stores the attribute as it is,
  \<open>None\<close> included.
\<close>

theorem features_key_without_bundle:
  "features demo_self = None
   \<and> fst (priv_saveFormat demo_env demo_self Map.empty [] ''out'' True False) = Inr ()
   \<and> keys_at (snd (snd (priv_saveFormat demo_env demo_self Map.empty [] ''out'' True False)))
       ''out.json''
     = Some [''sample_frequencies'', ''sample_time'', ''color_mesh'', ''features'']"
  by (simp add: demo_simps)

text \<open>
  C2, as the code has it. The keys of the document written are a function of the two
  flags alone: the intensity matrix when compressed, the three arrays otherwise, followed
  by \<^verbatim>\<open>features\<close> exactly when \<^verbatim>\<open>featurize\<close> is true, with the retained
  attribute (a feature object or \<open>None\<close>) as its value. The same document is kept in
  the container attribute.
\<close>

theorem saved_document_keys:
  assumes "priv_saveFormat env self files folder filename featurize compressed
             = (Inr (), self', files')"
  shows "keys_at files' (folder @ filename @ ''.json'')
           = Some (document_keys compressed featurize)
         \<and> (\<exists>doc. files' (folder @ filename @ ''.json'') = Some (Complete doc)
                \<and> container self' = Some doc
                \<and> (featurize \<longrightarrow> map_of doc ''features'' = Some (features_value self)))"
proof -
  from priv_saveFormat_success [OF assms] obtain doc where
    lit: "container_literal self compressed = Inr doc" and
    kept: "container self' =
             Some (if featurize then AList.update ''features'' (features_value self) doc
                   else doc)" and
    fs: "files' = files(folder @ filename @ ''.json'' \<mapsto>
           Complete (if featurize then AList.update ''features'' (features_value self) doc
                     else doc))"
    by blast
  have keys: "map fst doc = document_keys compressed False"
    using lit by (rule container_literal_keys)
  show ?thesis
  proof (cases featurize)
    case True
    with fs kept keys show ?thesis
      by (simp add: keys_at_def update_features_keys update_conv')
  next
    case False
    with fs kept keys show ?thesis
      by (simp add: keys_at_def)
  qed
qed

theorem saved_document_keys_witness:
  "priv_saveFormat demo_env demo_self Map.empty ''tmp/'' ''out'' True True
     = (Inr (),
        demo_self\<lparr>container := Some [(''color_mesh'', List [List [Num 5], List [Num 0]]),
                                      (''features'', NoneVal)]\<rparr>,
        [''tmp/out.json'' \<mapsto> Complete [(''color_mesh'', List [List [Num 5], List [Num 0]]),
                                          (''features'', NoneVal)]])
   \<and> keys_at (snd (snd (priv_saveFormat demo_env demo_self Map.empty ''tmp/'' ''out''
                          True True))) ''tmp/out.json''
     = Some [''color_mesh'', ''features'']"
proof -
  have run:
    "priv_saveFormat demo_env demo_self Map.empty ''tmp/'' ''out'' True True
       = (Inr (),
          demo_self\<lparr>container := Some [(''color_mesh'', List [List [Num 5], List [Num 0]]),
                                        (''features'', NoneVal)]\<rparr>,
          [''tmp/out.json'' \<mapsto> Complete [(''color_mesh'', List [List [Num 5], List [Num 0]]),
                                            (''features'', NoneVal)]])"
    by (simp add: demo_simps)
  from saved_document_keys [OF run] show ?thesis
    using run by (simp add: document_keys_def)
qed

subsection \<open>The entry point\<close>

text \<open>
  C7. The entry point is the three steps of the specification run in order, each one
  only when the ones before it have not failed: Transform on the caller's waveform,
  sample rate and window; Feature Extraction, exactly when \<open>featureize\<close> is true, on the
  intensity matrix Transform has just stored and the caller's sample rate, its result
  stored in the features attribute; Serialization, exactly when a file name is given and
  not empty, at the caller's path or the empty one, with both flags as given.
\<close>

theorem call_runs_steps_in_order:
  "call env self files d sr w name path c f
     = (case spec_run env d sr w name path c f (self, files) of
          (r, m) \<Rightarrow> (r, fst m, snd m))"
proof -
  obtain r self1 where t: "priv_spectrogram env self d sr w = (r, self1)"
    by (cases "priv_spectrogram env self d sr w")
  show ?thesis
  proof (cases r)
    case (Inl e)
    with t show ?thesis
      by (simp add: call_transform_failed spec_run_def and_then_def transform_step_def)
  next
    case (Inr u)
    note t = t [unfolded Inr]
    show ?thesis
    proof (cases f)
      case False
      with t show ?thesis
        by (simp add: call_without_features spec_run_def and_then_def transform_step_def
              when_step_def serialize_step_def split: prod.splits)
    next
      case True
      show ?thesis
      proof (cases "priv_spectralFeatures env None (colorMesh self1) sr w")
        case (Inl e)
        with t True show ?thesis
          by (simp add: call_features_failed spec_run_def and_then_def transform_step_def
                when_step_def feature_step_def)
      next
        case (Inr b)
        with t True show ?thesis
          by (simp add: call_with_features spec_run_def and_then_def transform_step_def
                when_step_def feature_step_def serialize_step_def split: prod.splits)
      qed
    qed
  qed
qed

theorem call_runs_steps_in_order_witness:
  "spec_run demo_env (Flat [1, 2]) 22050 ''hann'' (Some ''out'') None False False
     (init, Map.empty)
     = (Inr (),
        \<lparr>sampleFreqs = Some (Flat [0, 11025]), sampleTime = Some (Flat [0]),
         colorMesh = Some (Table 1 [[5], [0]]), features = None,
         container =
           Some [(''sample_frequencies'', List [Num 0, Num 11025]),
                 (''sample_time'', List [Num 0]),
                 (''color_mesh'', List [List [Num 5], List [Num 0]])]\<rparr>,
        [''out.json'' \<mapsto>
           Complete [(''sample_frequencies'', List [Num 0, Num 11025]),
                     (''sample_time'', List [Num 0]),
                     (''color_mesh'', List [List [Num 5], List [Num 0]])]])
   \<and> spec_run demo_env (Flat [1, 2]) 22050 ''hann'' (Some ''out'') None False True
       (init, Map.empty)
       = (Inl TypeError,
          \<lparr>sampleFreqs = Some (Flat [0, 11025]), sampleTime = Some (Flat [0]),
           colorMesh = Some (Table 1 [[5], [0]]), features = None, container = None\<rparr>,
          Map.empty)"
proof -
  have saved:
    "call demo_env init Map.empty (Flat [1, 2]) 22050 ''hann'' (Some ''out'') None False False
       = (Inr (),
          \<lparr>sampleFreqs = Some (Flat [0, 11025]), sampleTime = Some (Flat [0]),
           colorMesh = Some (Table 1 [[5], [0]]), features = None,
           container =
             Some [(''sample_frequencies'', List [Num 0, Num 11025]),
                   (''sample_time'', List [Num 0]),
                   (''color_mesh'', List [List [Num 5], List [Num 0]])]\<rparr>,
          [''out.json'' \<mapsto>
             Complete [(''sample_frequencies'', List [Num 0, Num 11025]),
                       (''sample_time'', List [Num 0]),
                       (''color_mesh'', List [List [Num 5], List [Num 0]])]])"
    by (simp add: demo_simps)
  have stopped:
    "call demo_env init Map.empty (Flat [1, 2]) 22050 ''hann'' (Some ''out'') None False True
       = (Inl TypeError,
          \<lparr>sampleFreqs = Some (Flat [0, 11025]), sampleTime = Some (Flat [0]),
           colorMesh = Some (Table 1 [[5], [0]]), features = None, container = None\<rparr>,
          Map.empty)"
    by (simp add: demo_simps)
  have first: ?thesis
    if "call demo_env init Map.empty (Flat [1, 2]) 22050 ''hann'' (Some ''out'') None
          False False
        = (case spec_run demo_env (Flat [1, 2]) 22050 ''hann'' (Some ''out'') None False False
                  (init, Map.empty) of (r, m) \<Rightarrow> (r, fst m, snd m))"
      and "call demo_env init Map.empty (Flat [1, 2]) 22050 ''hann'' (Some ''out'') None
          False True
        = (case spec_run demo_env (Flat [1, 2]) 22050 ''hann'' (Some ''out'') None False True
                  (init, Map.empty) of (r, m) \<Rightarrow> (r, fst m, snd m))"
    using that unfolding saved stopped
    by (auto split: prod.splits)
  show ?thesis
    by (rule first)
       (rule call_runs_steps_in_order
               [of demo_env init Map.empty "Flat [1, 2]" 22050 "''hann''" "Some ''out''" None
                   False False],
        rule call_runs_steps_in_order
               [of demo_env init Map.empty "Flat [1, 2]" 22050 "''hann''" "Some ''out''" None
                   False True])
qed

text \<open>
  C8. Whatever the outcome of an invocation, the only file it can touch is the one
  named by the concatenation of the path (empty when none is given), the file name and
  \<^verbatim>\<open>.json\<close>, with nothing put between them; when the invocation succeeds and a file
  name was given, that file holds the complete document kept in the container attribute.
\<close>

theorem saved_file_path:
  assumes "call env self files d sr w name path c f = (r, self', files')"
  shows "(\<forall>p. p \<noteq> or_empty path @ or_empty name @ ''.json'' \<longrightarrow> files' p = files p)
         \<and> (r = Inr () \<and> provided name \<longrightarrow>
              (\<exists>doc. container self' = Some doc
                 \<and> files' = files(or_empty path @ or_empty name @ ''.json''
                                    \<mapsto> Complete doc)))"
proof -
  from call_outcome [OF assms] show ?thesis
  proof
    assume "files' = files \<and> \<not> (r = Inr () \<and> provided name)"
    then show ?thesis by blast
  next
    assume "provided name \<and>
      (\<exists>self2. priv_saveFormat env self2 files (or_empty path) (or_empty name) f c
                 = (r, self', files'))"
    then obtain self2 where
      saved: "priv_saveFormat env self2 files (or_empty path) (or_empty name) f c
                = (r, self', files')"
      by blast
    have others: "\<forall>p. p \<noteq> or_empty path @ or_empty name @ ''.json'' \<longrightarrow> files' p = files p"
      using priv_saveFormat_other_paths [OF saved] by blast
    have "\<exists>doc. container self' = Some doc
            \<and> files' = files(or_empty path @ or_empty name @ ''.json'' \<mapsto> Complete doc)"
      if "r = Inr ()"
      using priv_saveFormat_success [OF saved [unfolded that]] by blast
    with others show ?thesis by blast
  qed
qed

theorem saved_file_path_witness:
  "call demo_env init Map.empty (Flat [1, 2]) 22050 ''hann'' (Some ''out'') (Some ''tmp'')
     True False
     = (Inr (),
        \<lparr>sampleFreqs = Some (Flat [0, 11025]), sampleTime = Some (Flat [0]),
         colorMesh = Some (Table 1 [[5], [0]]), features = None,
         container = Some [(''color_mesh'', List [List [Num 5], List [Num 0]])]\<rparr>,
        [''tmpout.json'' \<mapsto> Complete [(''color_mesh'', List [List [Num 5], List [Num 0]])]])
   \<and> or_empty (Some ''tmp'') @ or_empty (Some ''out'') @ ''.json'' = ''tmpout.json''
   \<and> snd (snd (call demo_env init Map.empty (Flat [1, 2]) 22050 ''hann'' (Some ''out'')
                  (Some ''tmp'') True False)) ''tmp/out.json'' = None"
proof -
  have run:
    "call demo_env init Map.empty (Flat [1, 2]) 22050 ''hann'' (Some ''out'') (Some ''tmp'')
       True False
       = (Inr (),
          \<lparr>sampleFreqs = Some (Flat [0, 11025]), sampleTime = Some (Flat [0]),
           colorMesh = Some (Table 1 [[5], [0]]), features = None,
           container = Some [(''color_mesh'', List [List [Num 5], List [Num 0]])]\<rparr>,
          [''tmpout.json'' \<mapsto> Complete [(''color_mesh'', List [List [Num 5], List [Num 0]])]])"
    by (simp add: demo_simps)
  have path: "or_empty (Some ''tmp'') @ or_empty (Some ''out'') @ ''.json'' = ''tmpout.json''"
    by (simp add: or_empty_def)
  from saved_file_path [OF run] show ?thesis
    using run path by simp
qed

text \<open>
  C9. An invocation with \<open>featureize\<close> false leaves the features attribute as it was,
  whether it succeeds or fails; when no file name is given it leaves the container
  attribute and the disk as they were, too.
\<close>

theorem call_keeps_features:
  assumes "call env self files d sr w name path c False = (r, self', files')"
  shows "features self' = features self
         \<and> (\<not> provided name \<longrightarrow> container self' = container self \<and> files' = files)"
proof -
  obtain r0 self1 where t: "priv_spectrogram env self d sr w = (r0, self1)"
    by (cases "priv_spectrogram env self d sr w")
  then have frame1: "features self1 = features self" "container self1 = container self"
    by (auto dest: priv_spectrogram_frame)
  show ?thesis
  proof (cases r0)
    case (Inl e)
    with t assms frame1 show ?thesis
      by (simp add: call_transform_failed)
  next
    case (Inr u)
    with t assms have
      "(if provided name
        then priv_saveFormat env self1 files (or_empty path) (or_empty name) False c
        else (Inr (), self1, files)) = (r, self', files')"
      by (simp add: call_without_features)
    with frame1 show ?thesis
      by (auto split: if_splits dest: priv_saveFormat_frame)
  qed
qed

theorem call_keeps_features_witness:
  "call demo_env (demo_self\<lparr>features := Some (Flat [7])\<rparr>) Map.empty
     (Flat [1, 2]) 22050 ''hann'' None None False False
     = (Inr (),
        \<lparr>sampleFreqs = Some (Flat [0, 11025]), sampleTime = Some (Flat [0]),
         colorMesh = Some (Table 1 [[5], [0]]), features = Some (Flat [7]),
         container = None\<rparr>,
        Map.empty)
   \<and> \<not> provided None
   \<and> features (fst (snd (call demo_env (demo_self\<lparr>features := Some (Flat [7])\<rparr>) Map.empty
         (Flat [1, 2]) 22050 ''hann'' None None False False)))
       = features (demo_self\<lparr>features := Some (Flat [7])\<rparr>)"
proof -
  have run:
    "call demo_env (demo_self\<lparr>features := Some (Flat [7])\<rparr>) Map.empty
       (Flat [1, 2]) 22050 ''hann'' None None False False
       = (Inr (),
          \<lparr>sampleFreqs = Some (Flat [0, 11025]), sampleTime = Some (Flat [0]),
           colorMesh = Some (Table 1 [[5], [0]]), features = Some (Flat [7]),
           container = None\<rparr>,
          Map.empty)"
    by (simp add: demo_simps)
  from call_keeps_features [OF run] show ?thesis
    using run by (simp add: provided_def)
qed

end
